theory Spec2Isabelle
  imports Complex_Main "HOL-Library.Multiset"
begin

section \<open>Data model (models.py)\<close>

text \<open>
  A \<open>datetime\<close> is a point on the time line, counted in microseconds. All timestamps
  of one run are taken to be of one kind (all naive or all timezone-aware), so that
  Python's comparison of two of them is defined and is the order of the integers.
  Python floats are modelled by the reals: no rounding, no infinities, no NaN.
\<close>

type_synonym datetime = int

datatype TradeSide = BUY | SELL

text \<open>The dataclass \<open>Trade\<close>; its field \<open>size\<close> is \<open>trade_size\<close> here.\<close>

record Trade =
  trade_id :: string
  market_id :: string
  token_id :: string
  side :: TradeSide
  trade_size :: real
  price :: real
  timestamp :: datetime
  outcome :: string

definition is_buy :: "Trade \<Rightarrow> bool" where
  "is_buy t = (side t = BUY)"

definition is_sell :: "Trade \<Rightarrow> bool" where
  "is_sell t = (side t = SELL)"

text \<open>
  The dataclass \<open>Position\<close>, which is also a row of the table \<open>positions\<close>. The fields
  it shares with \<open>Trade\<close> carry the prefix \<open>pos\<close>. A position that has not been saved
  has \<open>id = None\<close> in the source; \<open>save_position\<close> never reads that field, and the
  model writes 0 there (SQLite's row ids start at 1).
\<close>

record Position =
  pos_id :: nat
  pos_market_id :: string
  pos_token_id :: string
  pos_side :: TradeSide
  amount :: real
  entry_price :: real
  opened_at :: datetime
  closed_at :: "datetime option"
  pos_outcome :: string

definition is_open :: "Position \<Rightarrow> bool" where
  "is_open p = (closed_at p = None)"

section \<open>The ledger (db.py)\<close>

text \<open>
  The SQLite connection is the content of its two tables: the rows of \<open>positions\<close> in
  row-id order, and the rows of \<open>processed_trades\<close> (\<open>trade_id\<close>, \<open>processed_at\<close>) in
  insertion order. Every statement of db.py commits at once, so a call is a function
  from ledger to ledger. \<open>datetime.utcnow()\<close> is a parameter \<open>now\<close> of each function
  that reads the clock.
\<close>

record ledger =
  positions :: "Position list"
  processed_trades :: "(string \<times> datetime) list"

definition empty_ledger :: ledger where
  "empty_ledger = \<lparr>positions = [], processed_trades = []\<rparr>"

text \<open>
  \<open>INTEGER PRIMARY KEY AUTOINCREMENT\<close>: one more than the largest row id. No row of
  \<open>positions\<close> is ever deleted, so the largest id ever used is the largest id present.
\<close>

definition next_id :: "Position list \<Rightarrow> nat" where
  "next_id ps = Suc (fold max (map pos_id ps) 0)"

definition save_position :: "ledger \<Rightarrow> Position \<Rightarrow> nat \<times> ledger" where
  "save_position l position =
     (let lastrowid = next_id (positions l)
      in (lastrowid, l\<lparr>positions := positions l @ [position\<lparr>pos_id := lastrowid\<rparr>]\<rparr>))"

definition get_open_positions :: "ledger \<Rightarrow> Position list" where
  "get_open_positions l = filter (\<lambda>p. closed_at p = None) (positions l)"

text \<open>\<open>fetchone\<close> of the rows with this token and no \<open>closed_at\<close>: the first such row.\<close>

definition get_position_by_token :: "ledger \<Rightarrow> string \<Rightarrow> Position option" where
  "get_position_by_token l tok =
     find (\<lambda>p. pos_token_id p = tok \<and> closed_at p = None) (positions l)"

definition close_position :: "ledger \<Rightarrow> datetime \<Rightarrow> nat \<Rightarrow> ledger" where
  "close_position l now position_id =
     l\<lparr>positions :=
         map (\<lambda>p. if pos_id p = position_id then p\<lparr>closed_at := Some now\<rparr> else p)
           (positions l)\<rparr>"

definition is_trade_processed :: "ledger \<Rightarrow> string \<Rightarrow> bool" where
  "is_trade_processed l tid = (map_of (processed_trades l) tid \<noteq> None)"

text \<open>\<open>INSERT OR IGNORE\<close> on the primary key \<open>trade_id\<close>.\<close>

definition mark_trade_processed :: "ledger \<Rightarrow> datetime \<Rightarrow> string \<Rightarrow> ledger" where
  "mark_trade_processed l now tid =
     (if is_trade_processed l tid then l
      else l\<lparr>processed_trades := processed_trades l @ [(tid, now)]\<rparr>)"

section \<open>The position manager (position_manager.py)\<close>

text \<open>
  \<open>record_entry\<close> reads the clock twice (for \<open>opened_at\<close> and for the marker),
  \<open>record_exit\<close> twice when it finds a position (for \<open>closed_at\<close> and for the marker)
  and not at all otherwise.
\<close>

definition record_entry ::
  "ledger \<Rightarrow> datetime \<Rightarrow> datetime \<Rightarrow> Trade \<Rightarrow> real \<Rightarrow> real \<Rightarrow> nat \<times> ledger" where
  "record_entry l now now' trade amt entry =
     (let sz = (if entry > 0 then amt / entry else 0);
          position = \<lparr>pos_id = 0,
                      pos_market_id = market_id trade,
                      pos_token_id = token_id trade,
                      pos_side = side trade,
                      amount = sz,
                      entry_price = entry,
                      opened_at = now,
                      closed_at = None,
                      pos_outcome = outcome trade\<rparr>;
          (position_id, l1) = save_position l position
      in (position_id, mark_trade_processed l1 now' (trade_id trade)))"

definition record_exit :: "ledger \<Rightarrow> datetime \<Rightarrow> datetime \<Rightarrow> Trade \<Rightarrow> bool \<times> ledger" where
  "record_exit l now now' trade =
     (case get_position_by_token l (token_id trade) of
        None \<Rightarrow> (False, l)
      | Some position \<Rightarrow>
          (True, mark_trade_processed (close_position l now (pos_id position)) now'
                   (trade_id trade)))"

definition has_position :: "ledger \<Rightarrow> string \<Rightarrow> bool" where
  "has_position l tok = (get_position_by_token l tok \<noteq> None)"

definition get_position :: "ledger \<Rightarrow> string \<Rightarrow> Position option" where
  "get_position l tok = get_position_by_token l tok"

definition get_all_open_positions :: "ledger \<Rightarrow> Position list" where
  "get_all_open_positions l = get_open_positions l"

text \<open>The open positions the ledger holds for one token, in row order.\<close>

definition open_positions_for :: "ledger \<Rightarrow> string \<Rightarrow> Position list" where
  "open_positions_for l tok =
     filter (\<lambda>p. pos_token_id p = tok \<and> closed_at p = None) (positions l)"

definition mark_processed :: "ledger \<Rightarrow> datetime \<Rightarrow> string \<Rightarrow> ledger" where
  "mark_processed l now tid = mark_trade_processed l now tid"


section \<open>The activity tracker (tracker.py)\<close>

subsection \<open>Feed records and the Python library\<close>

text \<open>
  A feed record is a JSON object: a dictionary from keys to JSON values. The exceptions
  that the tracker's code can meet are values of \<open>py_error\<close>; \<open>RequestError\<close> stands for
  whatever the HTTP call or the JSON decoding raises.
\<close>

datatype json =
    JNull
  | JBool bool
  | JInt int
  | JFloat real
  | JStr string
  | JArray "json list"
  | JObject "(string \<times> json) list"

datatype py_error =
  KeyError | ValueError | TypeError | AttributeError | OverflowError | RequestError

type_synonym item = "string \<Rightarrow> json option"

text \<open>
  Library functions the parser calls and this repository does not define: the builtin
  \<open>float\<close> on a JSON value, the builtin \<open>str\<close> on a JSON value that is not a string, and
  \<open>datetime.fromisoformat\<close>. Each is a parameter; \<open>Inl\<close> is the exception it raises.
\<close>

record pylib =
  py_float :: "json \<Rightarrow> py_error + real"
  py_str :: "json \<Rightarrow> string"
  fromisoformat :: "string \<Rightarrow> py_error + datetime"

text \<open>\<open>item.get(k)\<close> and \<open>item.get(k, d)\<close>.\<close>

definition dict_get :: "item \<Rightarrow> string \<Rightarrow> json" where
  "dict_get item k = (case item k of None \<Rightarrow> JNull | Some v \<Rightarrow> v)"

definition dict_get_default :: "item \<Rightarrow> string \<Rightarrow> json \<Rightarrow> json" where
  "dict_get_default item k d = (case item k of None \<Rightarrow> d | Some v \<Rightarrow> v)"

text \<open>Python's truth value of a JSON value, as \<open>or\<close> and \<open>if\<close> test it.\<close>

fun truthy_json :: "json \<Rightarrow> bool" where
  "truthy_json JNull = False"
| "truthy_json (JBool b) = b"
| "truthy_json (JInt n) = (n \<noteq> 0)"
| "truthy_json (JFloat r) = (r \<noteq> 0)"
| "truthy_json (JStr s) = (s \<noteq> [])"
| "truthy_json (JArray xs) = (xs \<noteq> [])"
| "truthy_json (JObject kvs) = (kvs \<noteq> [])"

text \<open>
  \<open>str.upper\<close> on the bytes of a string: the letters a to z go to A to Z. No other
  character has an upper case among the letters B, U and Y, so the comparison with
  \<open>"BUY"\<close> below is the one Python makes.
\<close>

definition upper_char :: "char \<Rightarrow> char" where
  "upper_char c =
     (let n = (of_char c :: nat) in if 97 \<le> n \<and> n \<le> 122 then char_of (n - 32) else c)"

definition upper :: "string \<Rightarrow> string" where
  "upper s = map upper_char s"

text \<open>\<open>s.replace("Z", "+00:00")\<close>.\<close>

definition replace_Z :: "string \<Rightarrow> string" where
  "replace_Z s = concat (map (\<lambda>c. if c = CHR ''Z'' then ''+00:00'' else [c]) s)"

text \<open>
  \<open>str(v)\<close>. The fields \<open>market_id\<close>, \<open>token_id\<close> and \<open>outcome\<close> are declared \<open>str\<close> and
  filled without a conversion; the model reads them through \<open>str_of\<close> as well, which
  is the identity on the strings the feed documents for them.
\<close>

definition str_of :: "pylib \<Rightarrow> json \<Rightarrow> string" where
  "str_of lib v = (case v of JStr s \<Rightarrow> s | _ \<Rightarrow> py_str lib v)"

subsection \<open>Parsing one record\<close>

text \<open>
  The timestamp: \<open>item.get("timestamp") or item.get("createdAt")\<close>; when the result is
  truthy, \<open>.replace\<close> (an AttributeError on anything but a string) and
  \<open>fromisoformat\<close>; otherwise the clock.
\<close>

definition parse_timestamp :: "pylib \<Rightarrow> datetime \<Rightarrow> item \<Rightarrow> py_error + datetime" where
  "parse_timestamp lib now item =
     (let timestamp_str =
            (if truthy_json (dict_get item ''timestamp'') then dict_get item ''timestamp''
             else dict_get item ''createdAt'')
      in if truthy_json timestamp_str
         then (case timestamp_str of
                 JStr s \<Rightarrow> fromisoformat lib (replace_Z s)
               | _ \<Rightarrow> Inl AttributeError)
         else Inr now)"

text \<open>
  The side: \<open>item.get("side", "").upper()\<close> (an AttributeError on anything but a
  string), then BUY when the result is \<open>"BUY"\<close> and SELL otherwise.
\<close>

definition parse_side :: "item \<Rightarrow> py_error + TradeSide" where
  "parse_side item =
     (case dict_get_default item ''side'' (JStr '''') of
        JStr s \<Rightarrow> Inr (if upper s = ''BUY'' then BUY else SELL)
      | _ \<Rightarrow> Inl AttributeError)"

text \<open>The body of the \<open>try\<close> block, in the order Python evaluates it.\<close>

definition parse_trade_body :: "pylib \<Rightarrow> datetime \<Rightarrow> item \<Rightarrow> py_error + Trade" where
  "parse_trade_body lib now item =
     (case parse_timestamp lib now item of
        Inl e \<Rightarrow> Inl e
      | Inr ts \<Rightarrow>
     (case parse_side item of
        Inl e \<Rightarrow> Inl e
      | Inr sd \<Rightarrow>
     (case py_float lib (dict_get_default item ''size'' (JInt 0)) of
        Inl e \<Rightarrow> Inl e
      | Inr sz \<Rightarrow>
     (case py_float lib (dict_get_default item ''price'' (JInt 0)) of
        Inl e \<Rightarrow> Inl e
      | Inr pr \<Rightarrow>
          Inr \<lparr>trade_id =
                 str_of lib (dict_get_default item ''id''
                   (dict_get_default item ''transactionHash'' (JStr ''''))),
               market_id =
                 str_of lib (dict_get_default item ''conditionId''
                   (dict_get_default item ''marketId'' (JStr ''''))),
               token_id =
                 str_of lib (dict_get_default item ''assetId''
                   (dict_get_default item ''tokenId'' (JStr ''''))),
               side = sd,
               trade_size = sz,
               price = pr,
               timestamp = ts,
               outcome =
                 str_of lib (dict_get_default item ''outcome''
                   (dict_get_default item ''title'' (JStr ''YES'')))\<rparr>))))"

text \<open>
  \<open>_parse_trade\<close>: \<open>except (KeyError, ValueError, TypeError)\<close> returns None; any other
  exception leaves the function. \<open>Inr None\<close> is the dropped record.
\<close>

definition parse_trade :: "pylib \<Rightarrow> datetime \<Rightarrow> item \<Rightarrow> py_error + Trade option" where
  "parse_trade lib now item =
     (case parse_trade_body lib now item of
        Inl e \<Rightarrow> (if e = KeyError \<or> e = ValueError \<or> e = TypeError then Inr None else Inl e)
      | Inr t \<Rightarrow> Inr (Some t))"

text \<open>The loop of \<open>_fetch_activity\<close> over the decoded response, \<open>trades\<close> its accumulator.\<close>

fun collect_trades ::
  "pylib \<Rightarrow> datetime \<Rightarrow> item list \<Rightarrow> Trade list \<Rightarrow> py_error + Trade list" where
  "collect_trades lib now [] trades = Inr trades"
| "collect_trades lib now (item # data) trades =
     (if dict_get item ''type'' \<noteq> JStr ''TRADE'' then collect_trades lib now data trades
      else (case parse_trade lib now item of
              Inl e \<Rightarrow> Inl e
            | Inr None \<Rightarrow> collect_trades lib now data trades
            | Inr (Some trade) \<Rightarrow> collect_trades lib now data (trades @ [trade])))"

definition fetch_activity ::
  "pylib \<Rightarrow> datetime \<Rightarrow> py_error + item list \<Rightarrow> py_error + Trade list" where
  "fetch_activity lib now response =
     (case response of Inl e \<Rightarrow> Inl e | Inr data \<Rightarrow> collect_trades lib now data [])"

subsection \<open>The watermark\<close>

record Tracker =
  last_seen_timestamp :: "datetime option"

text \<open>\<open>max\<close> over a sequence that is not empty: \<open>m\<close> is the largest value so far.\<close>

fun py_max :: "datetime \<Rightarrow> datetime list \<Rightarrow> datetime" where
  "py_max m [] = m"
| "py_max m (x # xs) = py_max (if m < x then x else m) xs"

text \<open>\<open>list.sort(key=...)\<close> is stable, as insertion sort by key is.\<close>

definition filter_new_trades :: "Tracker \<Rightarrow> Trade list \<Rightarrow> Trade list \<times> Tracker" where
  "filter_new_trades tr trades =
     (case last_seen_timestamp tr of
        None \<Rightarrow>
          (case trades of
             [] \<Rightarrow> ([], tr)
           | t # ts \<Rightarrow>
               ([], tr\<lparr>last_seen_timestamp := Some (py_max (timestamp t) (map timestamp ts))\<rparr>))
      | Some last_seen \<Rightarrow>
          (sort_key timestamp (filter (\<lambda>t. last_seen < timestamp t) trades), tr))"

text \<open>
  \<open>get_new_trades\<close>, given what \<open>_fetch_activity\<close> returned or raised. Any exception is
  caught and gives the empty list.
\<close>

definition get_new_trades :: "Tracker \<Rightarrow> py_error + Trade list \<Rightarrow> Trade list \<times> Tracker" where
  "get_new_trades tr fetched =
     (case fetched of
        Inl e \<Rightarrow> ([], tr)
      | Inr trades \<Rightarrow>
          (let (new_trades, tr1) = filter_new_trades tr trades
           in case new_trades of
                [] \<Rightarrow> (new_trades, tr1)
              | t # ts \<Rightarrow>
                  (new_trades,
                   tr1\<lparr>last_seen_timestamp :=
                         Some (py_max (timestamp t) (map timestamp ts))\<rparr>)))"

definition set_last_seen :: "Tracker \<Rightarrow> datetime \<Rightarrow> Tracker" where
  "set_last_seen tr ts = tr\<lparr>last_seen_timestamp := Some ts\<rparr>"

definition new_tracker :: Tracker where
  "new_tracker = \<lparr>last_seen_timestamp = None\<rparr>"

subsection \<open>Sequences of tracker calls\<close>

datatype tracker_call = GetNewTrades "py_error + Trade list" | SetLastSeen datetime

fun tracker_step :: "Tracker \<Rightarrow> tracker_call \<Rightarrow> Tracker" where
  "tracker_step tr (GetNewTrades fetched) = snd (get_new_trades tr fetched)"
| "tracker_step tr (SetLastSeen ts) = set_last_seen tr ts"

fun tracker_run :: "Tracker \<Rightarrow> tracker_call list \<Rightarrow> Tracker" where
  "tracker_run tr [] = tr"
| "tracker_run tr (c # cs) = tracker_run (tracker_step tr c) cs"


text \<open>The order of watermarks: unset is below every timestamp.\<close>

fun watermark_le :: "datetime option \<Rightarrow> datetime option \<Rightarrow> bool" where
  "watermark_le None _ = True"
| "watermark_le (Some a) None = False"
| "watermark_le (Some a) (Some b) = (a \<le> b)"

text \<open>
  A call sequence seeds forward when each \<open>set_last_seen\<close> in it is given a timestamp
  that is not below the watermark of the moment, as the seeding at startup is (the
  watermark is unset then).
\<close>

fun seeds_forward :: "Tracker \<Rightarrow> tracker_call list \<Rightarrow> bool" where
  "seeds_forward tr [] = True"
| "seeds_forward tr (GetNewTrades fetched # cs) =
     seeds_forward (tracker_step tr (GetNewTrades fetched)) cs"
| "seeds_forward tr (SetLastSeen ts # cs) =
     (watermark_le (last_seen_timestamp tr) (Some ts)
      \<and> seeds_forward (tracker_step tr (SetLastSeen ts)) cs)"

section \<open>The orchestrator (main.py)\<close>

text \<open>
  The execution adapter is outside the model. A call to it is logged, and what it
  returns (an order id or None) is a function of the calls logged before and of the
  call itself, so that it may answer every call differently. Each log entry carries,
  besides the call, the \<open>trade_id\<close> of the trade that caused it. The executor catches
  its own exceptions and is initialised before the loop, so a call always returns.
\<close>

datatype exec_call = Buy string real | Sell string real

type_synonym exec_log = "(string \<times> exec_call) list"

text \<open>
  The surroundings of the loop: the configured \<open>trade_amount\<close>, the execution adapter,
  and the clock, whose n-th reading is \<open>utcnow n\<close>.
\<close>

record env =
  trade_amount :: real
  executor :: "exec_log \<Rightarrow> exec_call \<Rightarrow> string option"
  utcnow :: "nat \<Rightarrow> datetime"

text \<open>
  What the loop changes: the ledger behind the connection, the log of the calls made
  to the execution adapter, and the number of clock readings taken so far.
\<close>

record world =
  conn :: ledger
  calls :: exec_log
  clock_reads :: nat

definition initial_world :: "ledger \<Rightarrow> world" where
  "initial_world l = \<lparr>conn = l, calls = [], clock_reads = 0\<rparr>"

text \<open>\<open>if order_id:\<close> holds for an order id that is neither None nor the empty string.\<close>

definition truthy_order :: "string option \<Rightarrow> bool" where
  "truthy_order order_id = (case order_id of None \<Rightarrow> False | Some s \<Rightarrow> s \<noteq> [])"

text \<open>\<open>executor.buy\<close> and \<open>executor.sell\<close>, on behalf of the trade \<open>tid\<close>.\<close>

definition execute :: "env \<Rightarrow> world \<Rightarrow> string \<Rightarrow> exec_call \<Rightarrow> string option \<times> world" where
  "execute e w tid c = (executor e (calls w) c, w\<lparr>calls := calls w @ [(tid, c)]\<rparr>)"

text \<open>The three writes of the position manager, with the clock readings they take.\<close>

definition do_mark_processed :: "env \<Rightarrow> world \<Rightarrow> string \<Rightarrow> world" where
  "do_mark_processed e w tid =
     w\<lparr>conn := mark_processed (conn w) (utcnow e (clock_reads w)) tid,
       clock_reads := clock_reads w + 1\<rparr>"

definition do_record_entry :: "env \<Rightarrow> world \<Rightarrow> Trade \<Rightarrow> real \<Rightarrow> real \<Rightarrow> world" where
  "do_record_entry e w trade amt entry =
     w\<lparr>conn := snd (record_entry (conn w) (utcnow e (clock_reads w))
                      (utcnow e (clock_reads w + 1)) trade amt entry),
       clock_reads := clock_reads w + 2\<rparr>"

definition do_record_exit :: "env \<Rightarrow> world \<Rightarrow> Trade \<Rightarrow> world" where
  "do_record_exit e w trade =
     (let (closed, l) = record_exit (conn w) (utcnow e (clock_reads w))
                          (utcnow e (clock_reads w + 1)) trade
      in w\<lparr>conn := l, clock_reads := clock_reads w + (if closed then 2 else 0)\<rparr>)"

text \<open>The body of the loop over \<open>new_trades\<close>, for one trade.\<close>

definition process_trade :: "env \<Rightarrow> world \<Rightarrow> Trade \<Rightarrow> world" where
  "process_trade e w trade =
     (if is_trade_processed (conn w) (trade_id trade) then w
      else if is_buy trade then
        (let (order_id, w1) =
               execute e w (trade_id trade) (Buy (token_id trade) (trade_amount e))
         in if truthy_order order_id
            then do_record_entry e w1 trade (trade_amount e) (price trade)
            else do_mark_processed e w1 (trade_id trade))
      else if is_sell trade then
        (case get_position (conn w) (token_id trade) of
           Some position \<Rightarrow>
             (let (order_id, w1) =
                    execute e w (trade_id trade) (Sell (token_id trade) (amount position))
              in if truthy_order order_id
                 then do_record_exit e w1 trade
                 else do_mark_processed e w1 (trade_id trade))
         | None \<Rightarrow> do_mark_processed e w (trade_id trade))
      else w)"

fun process_trades :: "env \<Rightarrow> world \<Rightarrow> Trade list \<Rightarrow> world" where
  "process_trades e w [] = w"
| "process_trades e w (trade # trades) = process_trades e (process_trade e w trade) trades"

text \<open>One cycle of the loop: poll the tracker, then process what it emits.\<close>

definition poll_cycle ::
  "env \<Rightarrow> Tracker \<times> world \<Rightarrow> py_error + Trade list \<Rightarrow> Tracker \<times> world" where
  "poll_cycle e s fetched =
     (let (new_trades, tr) = get_new_trades (fst s) fetched
      in (tr, process_trades e (snd s) new_trades))"

subsection \<open>Properties of ledgers and runs\<close>


text \<open>No token has two open positions.\<close>

definition at_most_one_open :: "ledger \<Rightarrow> bool" where
  "at_most_one_open l = distinct (map pos_token_id (get_open_positions l))"

text \<open>The trade is one whose BUY copy the orchestrator records: it passes the gate and the order is placed.\<close>

definition records_entry :: "env \<Rightarrow> world \<Rightarrow> Trade \<Rightarrow> bool" where
  "records_entry e w trade =
     (\<not> is_trade_processed (conn w) (trade_id trade) \<and> is_buy trade
      \<and> truthy_order (executor e (calls w) (Buy (token_id trade) (trade_amount e))))"

text \<open>Along the run, no entry is recorded for a token that has an open position.\<close>

fun entries_fresh :: "env \<Rightarrow> world \<Rightarrow> Trade list \<Rightarrow> bool" where
  "entries_fresh e w [] = True"
| "entries_fresh e w (trade # trades) =
     ((records_entry e w trade \<longrightarrow> \<not> has_position (conn w) (token_id trade))
      \<and> entries_fresh e (process_trade e w trade) trades)"

section \<open>Example values\<close>

text \<open>
  The scenario of the specification: the target buys token T1 at 0.40 (trade t1),
  buys it again (trade t2) and sells it (trade t3).
\<close>

definition buy_T1 :: Trade where
  "buy_T1 = \<lparr>trade_id = ''t1'', market_id = ''m1'', token_id = ''T1'', side = BUY,
             trade_size = 5, price = 2/5, timestamp = 10, outcome = ''YES''\<rparr>"

definition buy_T1_again :: Trade where
  "buy_T1_again = \<lparr>trade_id = ''t2'', market_id = ''m1'', token_id = ''T1'', side = BUY,
             trade_size = 7, price = 1/2, timestamp = 20, outcome = ''YES''\<rparr>"

definition sell_T1 :: Trade where
  "sell_T1 = \<lparr>trade_id = ''t3'', market_id = ''m1'', token_id = ''T1'', side = SELL,
             trade_size = 5, price = 3/5, timestamp = 30, outcome = ''YES''\<rparr>"

text \<open>The ledger after the first buy was copied with an amount of 10.\<close>

definition holding_T1 :: ledger where
  "holding_T1 =
     \<lparr>positions =
        [\<lparr>pos_id = 1, pos_market_id = ''m1'', pos_token_id = ''T1'', pos_side = BUY,
          amount = 25, entry_price = 2/5, opened_at = 100, closed_at = None,
          pos_outcome = ''YES''\<rparr>],
      processed_trades = [(''t1'', 101)]\<rparr>"



text \<open>
  Surroundings in which every order is placed, and surroundings in which none is; the
  trade amount is 10 and the n-th clock reading is n.
\<close>

definition always_fills :: env where
  "always_fills = \<lparr>trade_amount = 10, executor = (\<lambda>log c. Some ''order''), utcnow = int\<rparr>"

definition never_fills :: env where
  "never_fills = \<lparr>trade_amount = 10, executor = (\<lambda>log c. None), utcnow = int\<rparr>"

section \<open>Facts about the ledger\<close>

lemma get_position_by_token_SomeD:
  "get_position_by_token l tok = Some p \<Longrightarrow>
     p \<in> set (positions l) \<and> pos_token_id p = tok \<and> closed_at p = None"
  by (auto simp: get_position_by_token_def find_Some_iff)

lemma find_filter_hd:
  "find P xs = (case filter P xs of [] \<Rightarrow> None | x # _ \<Rightarrow> Some x)"
  by (induction xs) auto

lemma get_position_by_token_open:
  "get_position_by_token l tok =
     (case open_positions_for l tok of [] \<Rightarrow> None | p # _ \<Rightarrow> Some p)"
  by (simp add: get_position_by_token_def open_positions_for_def find_filter_hd)

lemma is_trade_processed_mark [simp]:
  "is_trade_processed (mark_trade_processed l now tid) tid"
  by (simp add: mark_trade_processed_def is_trade_processed_def map_add_def)


lemma positions_mark [simp]:
  "positions (mark_trade_processed l now tid) = positions l"
  by (simp add: mark_trade_processed_def)

lemma processed_trades_close [simp]:
  "processed_trades (close_position l now i) = processed_trades l"
  by (simp add: close_position_def)

lemma is_trade_processed_close [simp]:
  "is_trade_processed (close_position l now i) tid = is_trade_processed l tid"
  by (simp add: is_trade_processed_def)

lemma filter_open_close:
  "filter (\<lambda>p. closed_at p = None)
     (map (\<lambda>p. if pos_id p = i then p\<lparr>closed_at := Some now\<rparr> else p) ps) =
   filter (\<lambda>q. pos_id q \<noteq> i) (filter (\<lambda>p. closed_at p = None) ps)"
  by (induction ps) auto

lemma get_open_positions_close:
  "get_open_positions (close_position l now i) =
     filter (\<lambda>q. pos_id q \<noteq> i) (get_open_positions l)"
  by (simp add: get_open_positions_def close_position_def filter_open_close)

lemma get_open_positions_mark [simp]:
  "get_open_positions (mark_trade_processed l now tid) = get_open_positions l"
  by (simp add: get_open_positions_def)

lemma closed_after_close:
  assumes q: "q \<in> set (positions (close_position l now i))" and i: "pos_id q = i"
  shows "closed_at q = Some now"
proof -
  define f where "f = (\<lambda>p::Position. if pos_id p = i then p\<lparr>closed_at := Some now\<rparr> else p)"
  have "positions (close_position l now i) = map f (positions l)"
    unfolding close_position_def f_def by simp
  with q have "q \<in> f ` set (positions l)"
    by (simp only: set_map)
  then obtain x where qx: "q = f x" ..
  show ?thesis
  proof (cases "pos_id x = i")
    case True
    with qx show ?thesis by (simp add: f_def)
  next
    case False
    with qx i show ?thesis by (simp add: f_def)
  qed
qed

lemma open_not_in_closed:
  "closed_at p = None \<Longrightarrow> p \<notin> set (positions (close_position l now (pos_id p)))"
proof
  assume c: "closed_at p = None" and "p \<in> set (positions (close_position l now (pos_id p)))"
  then have "closed_at p = Some now" by (rule_tac closed_after_close) simp_all
  with c show False by simp
qed

lemma closed_in_closed:
  "p \<in> set (positions l) \<Longrightarrow>
     p\<lparr>closed_at := Some now\<rparr> \<in> set (positions (close_position l now (pos_id p)))"
  by (force simp: close_position_def)

section \<open>Entry sizing\<close>

text \<open>
  Claim C7. For every ledger, trade, amount and entry price, \<open>record_entry\<close> appends
  exactly one row to \<open>positions\<close>; the row is open, carries the trade's token and the
  entry price, and its \<open>amount\<close> is the amount divided by the entry price when the
  price is positive and 0 otherwise (no division is attempted at a price of 0 or
  below). The trade is marked processed by the same call.
\<close>

theorem record_entry_sizing:
  "(let l' = snd (record_entry l now now' trade amt entry);
        p = last (positions l')
    in positions l' = positions l @ [p]
       \<and> is_open p
       \<and> pos_token_id p = token_id trade
       \<and> entry_price p = entry
       \<and> opened_at p = now
       \<and> (0 < entry \<longrightarrow> amount p = amt / entry)
       \<and> (entry \<le> 0 \<longrightarrow> amount p = 0)
       \<and> is_trade_processed l' (trade_id trade))"
  by (simp add: record_entry_def save_position_def Let_def is_open_def)

text \<open>The two examples of the specification: 10 at a price of 0.25 gives 40, and a price of 0 gives 0.\<close>

theorem record_entry_sizing_witness:
  "amount (last (positions (snd (record_entry empty_ledger 0 0
      \<lparr>trade_id = ''t1'', market_id = ''m'', token_id = ''T1'', side = BUY,
       trade_size = 3, price = 1/4, timestamp = 5, outcome = ''YES''\<rparr> 10 (1/4))))) = 40
   \<and> amount (last (positions (snd (record_entry empty_ledger 0 0
      \<lparr>trade_id = ''t1'', market_id = ''m'', token_id = ''T1'', side = BUY,
       trade_size = 3, price = 0, timestamp = 5, outcome = ''YES''\<rparr> 10 0)))) = 0"
  using record_entry_sizing [of empty_ledger 0 0
      "\<lparr>trade_id = ''t1'', market_id = ''m'', token_id = ''T1'', side = BUY,
       trade_size = 3, price = 1/4, timestamp = 5, outcome = ''YES''\<rparr>" 10 "1/4"]
    record_entry_sizing [of empty_ledger 0 0
      "\<lparr>trade_id = ''t1'', market_id = ''m'', token_id = ''T1'', side = BUY,
       trade_size = 3, price = 0, timestamp = 5, outcome = ''YES''\<rparr>" 10 0]
  by (simp add: Let_def)

section \<open>Exit\<close>

text \<open>
  Claim C8. When the ledger holds no open position for the trade's token,
  \<open>record_exit\<close> returns False and the ledger it leaves is the ledger it was given:
  no row of \<open>positions\<close> changes and no marker is written. When it holds one, the
  position \<open>p\<close> that the lookup returns (the first in row order) is closed at the
  clock reading \<open>now\<close>, no other open position changes, the trade is marked
  processed (the marker is appended with the second clock reading unless the
  trade_id already has one), and the call returns True.
\<close>

theorem record_exit_cases:
  "(open_positions_for l (token_id trade) = [] \<longrightarrow>
      record_exit l now now' trade = (False, l))
   \<and> (open_positions_for l (token_id trade) \<noteq> [] \<longrightarrow>
        (let p = hd (open_positions_for l (token_id trade));
             l' = snd (record_exit l now now' trade)
         in fst (record_exit l now now' trade) = True
            \<and> p\<lparr>closed_at := Some now\<rparr> \<in> set (positions l')
            \<and> p \<notin> set (positions l')
            \<and> length (positions l') = length (positions l)
            \<and> get_open_positions l' =
                filter (\<lambda>q. pos_id q \<noteq> pos_id p) (get_open_positions l)
            \<and> is_trade_processed l' (trade_id trade)
            \<and> processed_trades l' =
                (if is_trade_processed l (trade_id trade) then processed_trades l
                 else processed_trades l @ [(trade_id trade, now')])))"
proof (intro conjI impI)
  assume "open_positions_for l (token_id trade) = []"
  then show "record_exit l now now' trade = (False, l)"
    by (simp add: record_exit_def get_position_by_token_open)
next
  assume "open_positions_for l (token_id trade) \<noteq> []"
  then obtain p rest where ops: "open_positions_for l (token_id trade) = p # rest"
    by (cases "open_positions_for l (token_id trade)") auto
  then have found: "get_position_by_token l (token_id trade) = Some p"
    by (simp add: get_position_by_token_open)
  then have p: "p \<in> set (positions l)" "closed_at p = None"
    by (auto dest: get_position_by_token_SomeD)
  define l1 where "l1 = close_position l now (pos_id p)"
  have res: "record_exit l now now' trade =
      (True, mark_trade_processed l1 now' (trade_id trade))"
    using found by (simp add: record_exit_def l1_def)
  have inl: "p\<lparr>closed_at := Some now\<rparr> \<in> set (positions l1)"
    using p(1) by (simp add: l1_def closed_in_closed)
  have notin: "p \<notin> set (positions l1)"
    using p(2) by (simp add: l1_def open_not_in_closed)
  have len: "length (positions l1) = length (positions l)"
    by (simp add: close_position_def l1_def)
  have opn: "get_open_positions l1 =
      filter (\<lambda>q. pos_id q \<noteq> pos_id p) (get_open_positions l)"
    by (simp add: l1_def get_open_positions_close)
  have prc: "processed_trades (mark_trade_processed l1 now' (trade_id trade)) =
      (if is_trade_processed l (trade_id trade) then processed_trades l
       else processed_trades l @ [(trade_id trade, now')])"
    by (simp add: mark_trade_processed_def l1_def)
  show "let p = hd (open_positions_for l (token_id trade));
            l' = snd (record_exit l now now' trade)
        in fst (record_exit l now now' trade) = True
           \<and> p\<lparr>closed_at := Some now\<rparr> \<in> set (positions l')
           \<and> p \<notin> set (positions l')
           \<and> length (positions l') = length (positions l)
           \<and> get_open_positions l' =
               filter (\<lambda>q. pos_id q \<noteq> pos_id p) (get_open_positions l)
           \<and> is_trade_processed l' (trade_id trade)
           \<and> processed_trades l' =
               (if is_trade_processed l (trade_id trade) then processed_trades l
                else processed_trades l @ [(trade_id trade, now')])"
    unfolding Let_def ops res using inl notin len opn prc by simp
qed

text \<open>
  On the empty ledger a sell of T1 changes nothing; on the ledger that holds T1 it
  closes the position at the first clock reading and appends the marker of trade t3.
\<close>

theorem record_exit_cases_witness:
  "record_exit empty_ledger 200 201 sell_T1 = (False, empty_ledger)
   \<and> fst (record_exit holding_T1 200 201 sell_T1) = True
   \<and> get_open_positions (snd (record_exit holding_T1 200 201 sell_T1)) = []
   \<and> map closed_at (positions (snd (record_exit holding_T1 200 201 sell_T1))) = [Some 200]
   \<and> processed_trades (snd (record_exit holding_T1 200 201 sell_T1)) =
       [(''t1'', 101), (''t3'', 201)]"
  using record_exit_cases [of empty_ledger sell_T1 200 201]
    record_exit_cases [of holding_T1 sell_T1 200 201]
  by (simp add: Let_def open_positions_for_def empty_ledger_def holding_T1_def sell_T1_def
        get_open_positions_def is_trade_processed_def record_exit_def
        get_position_by_token_def close_position_def mark_trade_processed_def)

section \<open>Facts about the tracker\<close>

lemma py_max_Max: "py_max m xs = Max (insert m (set xs))"
proof (induction xs arbitrary: m)
  case Nil
  then show ?case by simp
next
  case (Cons x xs)
  have "Max (insert m (insert x (set xs))) = Max (insert (max m x) (set xs))"
    by (cases "set xs = {}") (simp_all add: max.assoc)
  with Cons show ?case by (simp add: max_def)
qed

lemma py_max_timestamps:
  "py_max (timestamp t) (map timestamp ts) = Max (timestamp ` set (t # ts))"
  by (simp add: py_max_Max)



lemma fetch_error_step: "get_new_trades tr (Inl e) = ([], tr)"
  by (simp add: get_new_trades_def)

lemma steady_step:
  assumes "last_seen_timestamp tr = Some w"
  shows "get_new_trades tr (Inr trades) =
     (let new = sort_key timestamp (filter (\<lambda>t. w < timestamp t) trades)
      in (new, if new = [] then tr
               else tr\<lparr>last_seen_timestamp := Some (Max (timestamp ` set new))\<rparr>))"
proof -
  define new where "new = sort_key timestamp (filter (\<lambda>t. w < timestamp t) trades)"
  have f: "filter_new_trades tr trades = (new, tr)"
    using assms by (simp add: filter_new_trades_def new_def)
  show ?thesis
  proof (cases new)
    case Nil
    with f show ?thesis by (simp add: get_new_trades_def new_def[symmetric])
  next
    case (Cons t ts)
    with f show ?thesis
      by (simp add: get_new_trades_def new_def[symmetric] py_max_Max del: py_max.simps)
  qed
qed


lemma steady_watermark:
  assumes "last_seen_timestamp tr = Some w"
  shows "\<exists>w'. last_seen_timestamp (snd (get_new_trades tr f)) = Some w' \<and> w \<le> w'"
proof (cases f)
  case (Inl e)
  with assms show ?thesis by (simp add: fetch_error_step)
next
  case (Inr trades)
  define new where "new = sort_key timestamp (filter (\<lambda>t. w < timestamp t) trades)"
  show ?thesis
  proof (cases "new = []")
    case True
    with assms Inr show ?thesis by (simp add: steady_step Let_def new_def)
  next
    case False
    then obtain t where t: "t \<in> set new" by (cases new) auto
    then have "w < timestamp t" by (simp add: new_def)
    also have "timestamp t \<le> Max (timestamp ` set new)" using t by simp
    finally have "w \<le> Max (timestamp ` set new)" by simp
    with assms Inr False show ?thesis
      by (simp add: steady_step Let_def new_def[symmetric])
  qed
qed


section \<open>Cold start\<close>



section \<open>Steady state\<close>



section \<open>An empty first poll\<close>



section \<open>Watermark monotonicity\<close>

lemma watermark_le_refl: "watermark_le a a"
  by (cases a) simp_all

lemma watermark_le_trans: "watermark_le a b \<Longrightarrow> watermark_le b c \<Longrightarrow> watermark_le a c"
  by (cases a; cases b; cases c) simp_all

lemma get_new_trades_monotone:
  "watermark_le (last_seen_timestamp tr) (last_seen_timestamp (snd (get_new_trades tr f)))"
proof (cases "last_seen_timestamp tr")
  case None
  then show ?thesis by simp
next
  case (Some w)
  from steady_watermark [OF Some, of f] Some show ?thesis by auto
qed

lemma seeds_forward_monotone:
  "seeds_forward tr cs \<Longrightarrow>
     watermark_le (last_seen_timestamp tr) (last_seen_timestamp (tracker_run tr cs))"
proof (induction cs arbitrary: tr)
  case Nil
  then show ?case by (simp add: watermark_le_refl)
next
  case (Cons c cs)
  show ?case
  proof (cases c)
    case (GetNewTrades f)
    with Cons.prems have "seeds_forward (tracker_step tr c) cs" by simp
    then have "watermark_le (last_seen_timestamp (tracker_step tr c))
        (last_seen_timestamp (tracker_run (tracker_step tr c) cs))"
      by (rule Cons.IH)
    moreover have "watermark_le (last_seen_timestamp tr) (last_seen_timestamp (tracker_step tr c))"
      using GetNewTrades by (simp add: get_new_trades_monotone)
    ultimately show ?thesis by (auto intro: watermark_le_trans)
  next
    case (SetLastSeen ts)
    with Cons.prems have le: "watermark_le (last_seen_timestamp tr) (Some ts)"
      and rest: "seeds_forward (tracker_step tr c) cs" by simp_all
    from rest have "watermark_le (last_seen_timestamp (tracker_step tr c))
        (last_seen_timestamp (tracker_run (tracker_step tr c) cs))"
      by (rule Cons.IH)
    moreover have "watermark_le (last_seen_timestamp tr) (last_seen_timestamp (tracker_step tr c))"
      using SetLastSeen le by (simp add: set_last_seen_def)
    ultimately show ?thesis by (auto intro: watermark_le_trans)
  qed
qed

lemma tracker_run_append: "tracker_run tr (cs @ ds) = tracker_run (tracker_run tr cs) ds"
  by (induction cs arbitrary: tr) simp_all

lemma seeds_forward_append:
  "seeds_forward tr (cs @ ds) \<Longrightarrow> seeds_forward (tracker_run tr cs) ds"
proof (induction cs arbitrary: tr)
  case Nil
  then show ?case by simp
next
  case (Cons c cs)
  then show ?case by (cases c) simp_all
qed

text \<open>
  Claim C5 does not hold as it is stated.
  \<open>set_last_seen\<close> assigns its argument without looking at the watermark: after a cold
  start has set the watermark to 10, \<open>set_last_seen 3\<close> lowers it to 3.
\<close>

theorem watermark_counterexample:
  "\<not> watermark_le
       (last_seen_timestamp (tracker_run new_tracker [GetNewTrades (Inr [buy_T1])]))
       (last_seen_timestamp
          (tracker_run new_tracker [GetNewTrades (Inr [buy_T1]), SetLastSeen 3]))"
  by (simp add: new_tracker_def buy_T1_def get_new_trades_def filter_new_trades_def
        set_last_seen_def)

text \<open>
  Claim C5, amended. \<open>get_new_trades\<close> never lowers the watermark, whatever it
  fetches; \<open>set_last_seen\<close> sets it to its argument. So across any sequence of tracker
  calls in which every \<open>set_last_seen\<close> is given a timestamp that is not below the
  watermark of the moment (as the seeding at startup, on an unset watermark, is), the
  watermark after any prefix of the calls is not above the watermark after the whole
  sequence.
\<close>

theorem watermark_monotone:
  assumes "seeds_forward tr (cs @ ds)"
  shows "watermark_le (last_seen_timestamp (tracker_run tr cs))
           (last_seen_timestamp (tracker_run tr (cs @ ds)))"
  unfolding tracker_run_append
  using assms by (intro seeds_forward_monotone seeds_forward_append)

text \<open>A seeding at 3, a poll, and three more calls: the watermark goes from 10 to 40.\<close>

theorem watermark_monotone_witness:
  "seeds_forward new_tracker
     ([SetLastSeen 3, GetNewTrades (Inr [buy_T1])] @
      [GetNewTrades (Inr [sell_T1, buy_T1_again]), GetNewTrades (Inl RequestError),
       SetLastSeen 40])
   \<and> last_seen_timestamp
       (tracker_run new_tracker [SetLastSeen 3, GetNewTrades (Inr [buy_T1])]) = Some 10
   \<and> last_seen_timestamp
       (tracker_run new_tracker
         ([SetLastSeen 3, GetNewTrades (Inr [buy_T1])] @
          [GetNewTrades (Inr [sell_T1, buy_T1_again]), GetNewTrades (Inl RequestError),
           SetLastSeen 40])) = Some 40"
  using watermark_monotone [of new_tracker "[SetLastSeen 3, GetNewTrades (Inr [buy_T1])]"
      "[GetNewTrades (Inr [sell_T1, buy_T1_again]), GetNewTrades (Inl RequestError),
        SetLastSeen 40]"]
  by (simp add: new_tracker_def buy_T1_def sell_T1_def buy_T1_again_def get_new_trades_def
        filter_new_trades_def set_last_seen_def)

section \<open>The side of a parsed record\<close>


lemma parse_timestamp_side [simp]:
  "parse_timestamp lib now (item(''side'' \<mapsto> v)) = parse_timestamp lib now item"
  by (simp add: parse_timestamp_def dict_get_def)





text \<open>
  A \<open>side\<close> that is present and not a string (a JSON null or number) is outside the
  claim: it has no upper case, and \<open>.upper()\<close> raises an AttributeError that
  \<open>_parse_trade\<close> does not catch.
\<close>

lemma side_not_string_raises:
  assumes "parse_timestamp lib now item = Inr ts"
    and "item ''side'' = Some v" and "\<forall>s. v \<noteq> JStr s"
  shows "parse_trade lib now item = Inl AttributeError"
  using assms
  by (cases v) (simp_all add: parse_trade_def parse_trade_body_def parse_side_def
                  dict_get_default_def)


section \<open>Facts about one step of the loop\<close>

lemma side_cases: "is_sell t = (\<not> is_buy t)"
  by (cases "side t") (simp_all add: is_buy_def is_sell_def)

lemma processed_record_entry [simp]:
  "is_trade_processed (snd (record_entry l now now' trade amt entry)) (trade_id trade)"
  by (simp add: record_entry_def save_position_def Let_def)

lemma is_trade_processed_positions [simp]:
  "is_trade_processed (l\<lparr>positions := ps\<rparr>) tid = is_trade_processed l tid"
  by (simp add: is_trade_processed_def)



lemma processed_record_exit_found:
  "get_position_by_token l (token_id trade) = Some p \<Longrightarrow>
     is_trade_processed (snd (record_exit l now now' trade)) (trade_id trade)"
  by (simp add: record_exit_def)

text \<open>The ledger that one step of the loop leaves, branch by branch.\<close>

lemma conn_process_trade:
  "conn (process_trade e w trade) =
     (if is_trade_processed (conn w) (trade_id trade) then conn w
      else if is_buy trade then
        (if truthy_order (executor e (calls w) (Buy (token_id trade) (trade_amount e)))
         then snd (record_entry (conn w) (utcnow e (clock_reads w))
                     (utcnow e (clock_reads w + 1)) trade (trade_amount e) (price trade))
         else mark_trade_processed (conn w) (utcnow e (clock_reads w)) (trade_id trade))
      else (case get_position_by_token (conn w) (token_id trade) of
              Some position \<Rightarrow>
                (if truthy_order (executor e (calls w) (Sell (token_id trade) (amount position)))
                 then snd (record_exit (conn w) (utcnow e (clock_reads w))
                             (utcnow e (clock_reads w + 1)) trade)
                 else mark_trade_processed (conn w) (utcnow e (clock_reads w)) (trade_id trade))
            | None \<Rightarrow>
                mark_trade_processed (conn w) (utcnow e (clock_reads w)) (trade_id trade)))"
  by (simp add: process_trade_def side_cases execute_def do_record_entry_def
        do_record_exit_def do_mark_processed_def mark_processed_def get_position_def
        split_beta split: option.splits)

text \<open>The calls that one step of the loop adds to the log.\<close>

lemma calls_process_trade:
  "calls (process_trade e w trade) =
     calls w @
     (if is_trade_processed (conn w) (trade_id trade) then []
      else if is_buy trade then [(trade_id trade, Buy (token_id trade) (trade_amount e))]
      else (case get_position_by_token (conn w) (token_id trade) of
              Some position \<Rightarrow> [(trade_id trade, Sell (token_id trade) (amount position))]
            | None \<Rightarrow> []))"
  by (simp add: process_trade_def side_cases execute_def do_record_entry_def
        do_record_exit_def do_mark_processed_def mark_processed_def get_position_def
        split_beta split: option.splits)

lemma processed_after_step:
  "is_trade_processed (conn (process_trade e w trade)) (trade_id trade)"
  by (simp add: conn_process_trade processed_record_exit_found split: option.splits)



lemma process_trade_skip:
  "is_trade_processed (conn w) (trade_id trade) \<Longrightarrow> process_trade e w trade = w"
  by (simp add: process_trade_def)

section \<open>Idempotency\<close>

text \<open>
  Claim C2. For every trade and every state of the ledger (and of the rest of the
  world), running the body of the loop a second time on the same trade leaves the
  ledger, the call log and the clock as the first run left them: the first run marks
  the trade processed and the second is skipped at the gate. The same holds when the
  second run is given another trade with the same \<open>trade_id\<close>, in other surroundings.
\<close>

theorem process_trade_idempotent:
  "process_trade e (process_trade e w trade) trade = process_trade e w trade
   \<and> conn (process_trade e (process_trade e w trade) trade) = conn (process_trade e w trade)
   \<and> (\<forall>e' trade'. trade_id trade' = trade_id trade \<longrightarrow>
         process_trade e' (process_trade e w trade) trade' = process_trade e w trade)"
proof -
  have "process_trade e' (process_trade e w trade) trade' = process_trade e w trade"
    if "trade_id trade' = trade_id trade" for e' trade'
  proof (rule process_trade_skip)
    show "is_trade_processed (conn (process_trade e w trade)) (trade_id trade')"
      unfolding that by (rule processed_after_step)
  qed
  then show ?thesis by simp
qed

text \<open>
  The first buy of T1 is copied: one position of 25 at 0.40 and the marker of t1. A
  second delivery of trade t1, even at another price and with an executor that fails,
  changes nothing.
\<close>

theorem process_trade_idempotent_witness:
  "conn (process_trade always_fills (initial_world empty_ledger) buy_T1) =
     \<lparr>positions =
        [\<lparr>pos_id = 1, pos_market_id = ''m1'', pos_token_id = ''T1'', pos_side = BUY,
          amount = 25, entry_price = 2/5, opened_at = 0, closed_at = None,
          pos_outcome = ''YES''\<rparr>],
      processed_trades = [(''t1'', 1)]\<rparr>
   \<and> process_trade never_fills
        (process_trade always_fills (initial_world empty_ledger) buy_T1)
        (buy_T1\<lparr>price := 1/2\<rparr>) =
       process_trade always_fills (initial_world empty_ledger) buy_T1"
proof -
  have "trade_id (buy_T1\<lparr>price := 1/2\<rparr>) = trade_id buy_T1" by simp
  with process_trade_idempotent [of always_fills "initial_world empty_ledger" buy_T1]
  have "process_trade never_fills
        (process_trade always_fills (initial_world empty_ledger) buy_T1)
        (buy_T1\<lparr>price := 1/2\<rparr>) =
       process_trade always_fills (initial_world empty_ledger) buy_T1"
    by blast
  moreover have "conn (process_trade always_fills (initial_world empty_ledger) buy_T1) =
     \<lparr>positions =
        [\<lparr>pos_id = 1, pos_market_id = ''m1'', pos_token_id = ''T1'', pos_side = BUY,
          amount = 25, entry_price = 2/5, opened_at = 0, closed_at = None,
          pos_outcome = ''YES''\<rparr>],
      processed_trades = [(''t1'', 1)]\<rparr>"
    by (simp add: conn_process_trade initial_world_def empty_ledger_def buy_T1_def
          always_fills_def is_trade_processed_def is_buy_def truthy_order_def
          record_entry_def save_position_def next_id_def mark_trade_processed_def)
  ultimately show ?thesis by simp
qed

section \<open>Forward progress\<close>






lemma at_most_one_call_step:
  "length (filter (\<lambda>c. fst c = trade_id trade) (calls (process_trade e w trade)))
     \<le> Suc (length (filter (\<lambda>c. fst c = trade_id trade) (calls w)))"
  by (simp add: calls_process_trade split: option.splits)



section \<open>Open positions per token\<close>

lemma open_after_record_entry:
  "\<exists>p. get_open_positions (snd (record_entry l now now' trade amt entry)) =
          get_open_positions l @ [p] \<and> pos_token_id p = token_id trade"
  by (simp add: record_entry_def save_position_def Let_def get_open_positions_def)

lemma open_after_record_exit:
  "\<exists>i. get_open_positions (snd (record_exit l now now' trade)) =
          filter (\<lambda>q. pos_id q \<noteq> i) (get_open_positions l)
       \<or> get_open_positions (snd (record_exit l now now' trade)) = get_open_positions l"
  by (auto simp: record_exit_def get_open_positions_close split: option.splits)

lemma no_position_no_token:
  "\<not> has_position l tok \<Longrightarrow> tok \<notin> set (map pos_token_id (get_open_positions l))"
  by (auto simp: has_position_def get_position_by_token_def get_open_positions_def
        find_None_iff)

lemma at_most_one_open_mark [simp]:
  "at_most_one_open (mark_trade_processed l now tid) = at_most_one_open l"
  by (simp add: at_most_one_open_def)

lemma at_most_one_open_exit:
  assumes "at_most_one_open l"
  shows "at_most_one_open (snd (record_exit l now now' trade))"
proof -
  from open_after_record_exit [of l now now' trade] obtain i where
    "get_open_positions (snd (record_exit l now now' trade)) =
          filter (\<lambda>q. pos_id q \<noteq> i) (get_open_positions l)
       \<or> get_open_positions (snd (record_exit l now now' trade)) = get_open_positions l"
    by blast
  with assms show ?thesis
    by (auto simp: at_most_one_open_def distinct_map_filter)
qed

lemma at_most_one_open_entry:
  assumes "at_most_one_open l" and "\<not> has_position l (token_id trade)"
  shows "at_most_one_open (snd (record_entry l now now' trade amt entry))"
proof -
  from open_after_record_entry [of l now now' trade amt entry] obtain p where
    p: "get_open_positions (snd (record_entry l now now' trade amt entry)) =
          get_open_positions l @ [p]" "pos_token_id p = token_id trade"
    by blast
  from assms(2) have "token_id trade \<notin> set (map pos_token_id (get_open_positions l))"
    by (rule no_position_no_token)
  with assms(1) p show ?thesis
    by (simp add: at_most_one_open_def)
qed

lemma at_most_one_open_step:
  assumes "at_most_one_open (conn w)"
    and "records_entry e w trade \<longrightarrow> \<not> has_position (conn w) (token_id trade)"
  shows "at_most_one_open (conn (process_trade e w trade))"
  using assms
  by (simp add: conn_process_trade records_entry_def at_most_one_open_entry
        at_most_one_open_exit split: option.splits)

lemma at_most_one_open_all:
  "at_most_one_open (conn w) \<Longrightarrow> entries_fresh e w trades \<Longrightarrow>
     at_most_one_open (conn (process_trades e w trades))"
  by (induction trades arbitrary: w) (simp_all add: at_most_one_open_step)

lemma entries_fresh_take:
  "entries_fresh e w trades \<Longrightarrow> entries_fresh e w (take n trades)"
proof (induction trades arbitrary: w n)
  case Nil
  then show ?case by simp
next
  case (Cons t ts)
  then show ?case by (cases n) simp_all
qed

text \<open>
  Claim C1 does not hold as it is stated.
  \<open>record_entry\<close> inserts a position without looking for an open one, and the loop
  does not look either before it copies a buy. From the empty ledger, two buys of T1
  with the trade ids t1 and t2, both placed, leave two open positions for T1.
\<close>

theorem two_buys_counterexample:
  "\<not> at_most_one_open
       (conn (process_trades always_fills (initial_world empty_ledger)
                [buy_T1, buy_T1_again]))"
  by (simp add: at_most_one_open_def get_open_positions_def
        process_trade_def execute_def do_record_entry_def do_record_exit_def
        do_mark_processed_def mark_processed_def get_position_def
        initial_world_def empty_ledger_def buy_T1_def buy_T1_again_def
        always_fills_def is_trade_processed_def is_buy_def
        is_sell_def truthy_order_def record_entry_def save_position_def
        next_id_def mark_trade_processed_def)

text \<open>
  Claim C1, amended. Starting from the empty ledger, after any sequence of trades
  processed by the loop in which no buy is copied (passes the gate and is placed) for
  a token while the ledger holds an open position for that token, no token has two
  open positions, at any time: after every prefix of the sequence. Sells, failed
  orders and skipped trades never add an open position.
\<close>

theorem at_most_one_open_position:
  assumes "entries_fresh e (initial_world empty_ledger) trades"
  shows "at_most_one_open (conn (process_trades e (initial_world empty_ledger) (take n trades)))"
proof -
  have "at_most_one_open (conn (initial_world empty_ledger))"
    by (simp add: at_most_one_open_def initial_world_def empty_ledger_def
          get_open_positions_def)
  moreover from assms have "entries_fresh e (initial_world empty_ledger) (take n trades)"
    by (rule entries_fresh_take)
  ultimately show ?thesis by (rule at_most_one_open_all)
qed

text \<open>
  A buy of T1, its sell, and a second buy of T1, all placed: the second buy finds no
  open position, and the one open position at the end is the second row.
\<close>

theorem at_most_one_open_position_witness:
  "entries_fresh always_fills (initial_world empty_ledger) [buy_T1, sell_T1, buy_T1_again]
   \<and> at_most_one_open (conn (process_trades always_fills (initial_world empty_ledger)
        (take 3 [buy_T1, sell_T1, buy_T1_again])))
   \<and> map pos_id (get_open_positions (conn (process_trades always_fills
        (initial_world empty_ledger) [buy_T1, sell_T1, buy_T1_again]))) = [2]"
proof -
  have f: "entries_fresh always_fills (initial_world empty_ledger)
      [buy_T1, sell_T1, buy_T1_again]"
    by (simp add: records_entry_def has_position_def get_open_positions_def
        process_trade_def execute_def do_record_entry_def do_record_exit_def
        do_mark_processed_def mark_processed_def get_position_def
        initial_world_def empty_ledger_def buy_T1_def buy_T1_again_def sell_T1_def
        always_fills_def is_trade_processed_def is_buy_def
        is_sell_def truthy_order_def record_entry_def record_exit_def save_position_def
        next_id_def mark_trade_processed_def get_position_by_token_def close_position_def)
  have g: "map pos_id (get_open_positions (conn (process_trades always_fills
        (initial_world empty_ledger) [buy_T1, sell_T1, buy_T1_again]))) = [2]"
    by (simp add: get_open_positions_def
        process_trade_def execute_def do_record_entry_def do_record_exit_def
        do_mark_processed_def mark_processed_def get_position_def
        initial_world_def empty_ledger_def buy_T1_def buy_T1_again_def sell_T1_def
        always_fills_def is_trade_processed_def is_buy_def
        is_sell_def truthy_order_def record_entry_def record_exit_def save_position_def
        next_id_def mark_trade_processed_def get_position_by_token_def close_position_def)
  from at_most_one_open_position [OF f, of 3] f g show ?thesis by simp
qed

end
